theory Spec2Isabelle
  imports Main
begin

section \<open>The dashboard state (app.js, mockData and the two state variables)\<close>

text \<open>
  app.js keeps all its data in the global object \<open>mockData\<close> and in the two variables
  \<open>currentTheme\<close> and \<open>currentSection\<close>. Every object of \<open>mockData\<close> is a record
  here, with the field names of the source behind a prefix (several objects have a
  \<open>name\<close>, a \<open>status\<close> or a \<open>type\<close>). Statuses stay strings, as in the source: the
  code compares them with string literals and has a fall-through branch for any other
  string. The entries \<open>systemStatus\<close> and \<open>metrics\<close> are written by no function and
  read only by the rendering of the service list; they are left out.
\<close>

record source =
  src_id :: int
  src_name :: string
  src_type :: string
  src_url :: string
  src_status :: string
  src_articles :: int

record activity =
  act_time :: string
  act_action :: string
  act_type :: string

record content_item =
  item_id :: int
  item_title :: string
  item_source :: string
  item_status :: string
  item_scrapedAt :: string
  item_platforms :: "string list"
  item_summary :: string

record platform =
  plat_name :: string
  plat_status :: string
  plat_posts :: int
  plat_engagement :: string

record subscription_counts =
  basic :: int
  pro :: int
  enterprise :: int

record monetization_data =
  subscriptions :: subscription_counts
  affiliateRevenue :: int
  sponsoredPosts :: int
  totalRevenue :: int

record dashboard =
  contentSources :: "source list"
  recentActivity :: "activity list"
  contentLibrary :: "content_item list"
  distributionPlatforms :: "platform list"
  monetization :: monetization_data
  currentTheme :: string
  currentSection :: string

definition mockContentSources :: "source list" where
  "mockContentSources =
     [\<lparr>src_id = 1, src_name = ''FDA Medical Device Updates'', src_type = ''RSS'',
       src_url = ''https://fda.gov/feeds/medical-devices.xml'',
       src_status = ''active'', src_articles = 42\<rparr>,
      \<lparr>src_id = 2, src_name = ''Maritime Hydrogen News'', src_type = ''HTML'',
       src_url = ''https://maritime-executive.com/hydrogen'',
       src_status = ''active'', src_articles = 18\<rparr>,
      \<lparr>src_id = 3, src_name = ''Neurotech Patents'', src_type = ''API'',
       src_url = ''https://patents.uspto.gov/api/neurotech'',
       src_status = ''paused'', src_articles = 7\<rparr>]"

definition mockRecentActivity :: "activity list" where
  "mockRecentActivity =
     [\<lparr>act_time = ''14:30'',
       act_action = ''Scraped 5 new articles from FDA Medical Device Updates'',
       act_type = ''success''\<rparr>,
      \<lparr>act_time = ''14:25'',
       act_action = ''AI processed 3 articles, enhanced content generated'',
       act_type = ''info''\<rparr>,
      \<lparr>act_time = ''14:20'',
       act_action = ''Published to LinkedIn - '' @ [CHR 0x27]
          @ ''New FDA Approval for Dental Implants'' @ [CHR 0x27],
       act_type = ''success''\<rparr>,
      \<lparr>act_time = ''14:15'',
       act_action = ''Twitter rate limit exceeded, retrying in 15 minutes'',
       act_type = ''warning''\<rparr>,
      \<lparr>act_time = ''14:10'',
       act_action = ''Generated affiliate links for 2 SaaS recommendations'',
       act_type = ''info''\<rparr>]"

definition mockContentLibrary :: "content_item list" where
  "mockContentLibrary =
     [\<lparr>item_id = 1,
       item_title = ''Revolutionary 3D Printed Prosthetic Receives FDA Approval'',
       item_source = ''FDA Medical Device Updates'', item_status = ''enhanced'',
       item_scrapedAt = ''2025-06-02T14:30:00Z'',
       item_platforms = [''LinkedIn'', ''Twitter''],
       item_summary = ''The FDA has approved a breakthrough 3D printed prosthetic device that offers improved mobility and reduced cost...''\<rparr>,
      \<lparr>item_id = 2,
       item_title = ''Hydrogen Fuel Cells Powering New Maritime Vessels'',
       item_source = ''Maritime Hydrogen News'', item_status = ''processing'',
       item_scrapedAt = ''2025-06-02T14:25:00Z'',
       item_platforms = [],
       item_summary = ''A new generation of hydrogen-powered vessels is revolutionizing maritime transportation...''\<rparr>]"

definition mockDistributionPlatforms :: "platform list" where
  "mockDistributionPlatforms =
     [\<lparr>plat_name = ''LinkedIn'', plat_status = ''connected'', plat_posts = 89,
       plat_engagement = ''4.2%''\<rparr>,
      \<lparr>plat_name = ''Twitter'', plat_status = ''rate_limited'', plat_posts = 156,
       plat_engagement = ''2.8%''\<rparr>,
      \<lparr>plat_name = ''Medium'', plat_status = ''connected'', plat_posts = 23,
       plat_engagement = ''6.1%''\<rparr>,
      \<lparr>plat_name = ''Substack'', plat_status = ''disconnected'', plat_posts = 0,
       plat_engagement = ''0%''\<rparr>]"

definition mockMonetization :: monetization_data where
  "mockMonetization =
     \<lparr>subscriptions = \<lparr>basic = 67, pro = 23, enterprise = 4\<rparr>,
      affiliateRevenue = 1580, sponsoredPosts = 3, totalRevenue = 2340\<rparr>"

definition mockData :: dashboard where
  "mockData =
     \<lparr>contentSources = mockContentSources,
      recentActivity = mockRecentActivity,
      contentLibrary = mockContentLibrary,
      distributionPlatforms = mockDistributionPlatforms,
      monetization = mockMonetization,
      currentTheme = ''light'',
      currentSection = ''dashboard''\<rparr>"

section \<open>Source management: toggleSource\<close>

text \<open>
  \<^verbatim>\<open>
  function toggleSource(sourceId) {
    const source = mockData.contentSources.find(s => s.id === sourceId);
    if (source) {
      source.status = source.status === 'active' ? 'paused' : 'active';
      loadContentSources();
    }
  }
  \<close>
  \<open>find\<close> returns the first element of the array whose id is \<open>sourceId\<close>, and the
  assignment mutates that element inside the array. \<open>toggleStatus\<close> is the right-hand
  side of the assignment, \<open>toggleFirst\<close> the array after the call: the first element
  with that id has its status replaced, every element before and after it is kept.
  When \<open>find\<close> finds nothing the \<open>if\<close> is skipped and nothing happens.
  \<open>loadContentSources\<close> only writes the table into the page.
\<close>

definition toggleStatus :: "string \<Rightarrow> string" where
  "toggleStatus st = (if st = ''active'' then ''paused'' else ''active'')"

fun toggleFirst :: "int \<Rightarrow> source list \<Rightarrow> source list" where
  "toggleFirst sourceId [] = []"
| "toggleFirst sourceId (s # ss) =
     (if src_id s = sourceId
      then s\<lparr>src_status := toggleStatus (src_status s)\<rparr> # ss
      else s # toggleFirst sourceId ss)"

definition toggleSource :: "int \<Rightarrow> dashboard \<Rightarrow> dashboard" where
  "toggleSource sourceId d =
     (case find (\<lambda>s. src_id s = sourceId) (contentSources d) of
        None \<Rightarrow> d
      | Some source \<Rightarrow> d\<lparr>contentSources := toggleFirst sourceId (contentSources d)\<rparr>)"

section \<open>The activity feed: updateRecentActivity\<close>

text \<open>
  \<^verbatim>\<open>
  const randomActivity = activities[Math.floor(Math.random() * activities.length)];
  const currentTime = new Date().toLocaleTimeString(...);
  const newActivity = {
    time: currentTime,
    action: randomActivity,
    type: Math.random() > 0.7 ? 'warning' : Math.random() > 0.5 ? 'info' : 'success'
  };
  mockData.recentActivity.unshift(newActivity);
  mockData.recentActivity = mockData.recentActivity.slice(0, 5);
  \<close>
  The clock and the random generator are inputs of the model: \<open>clock\<close> is the string
  \<open>currentTime\<close>, \<open>pick\<close> the value of \<open>Math.floor(Math.random() * activities.length)\<close>,
  \<open>over07\<close> and \<open>over05\<close> the outcomes of the two comparisons. \<open>Math.random\<close>
  returns a number in [0, 1), so \<open>pick\<close> is one of 0..4 in every call of the source; an
  index outside the array reads \<open>undefined\<close> in JavaScript, which the page would
  print as the text undefined.
\<close>

record draws =
  clock :: string
  pick :: nat
  over07 :: bool
  over05 :: bool

definition activities :: "string list" where
  "activities =
     [''New article scraped from Maritime Hydrogen News'',
      ''AI content enhancement completed'',
      ''Published to LinkedIn successfully'',
      ''Affiliate link generated for SaaS tool'',
      ''Twitter post scheduled for publication'']"

definition newActivity :: "draws \<Rightarrow> activity" where
  "newActivity r =
     \<lparr>act_time = clock r,
      act_action = (if pick r < length activities then activities ! pick r else ''undefined''),
      act_type = (if over07 r then ''warning'' else if over05 r then ''info'' else ''success'')\<rparr>"

definition updateRecentActivity :: "draws \<Rightarrow> dashboard \<Rightarrow> dashboard" where
  "updateRecentActivity r d = d\<lparr>recentActivity := take 5 (newActivity r # recentActivity d)\<rparr>"

text \<open>
  The timer of \<open>startAutoRefresh\<close> calls \<open>updateRecentActivity\<close> every 30 seconds, and only
  while the dashboard section is shown.
\<close>

definition autoRefreshTick :: "draws \<Rightarrow> dashboard \<Rightarrow> dashboard" where
  "autoRefreshTick r d =
     (if currentSection d = ''dashboard'' then updateRecentActivity r d else d)"

text \<open>The feed after a series of calls, the oldest call first.\<close>

fun updateAll :: "draws list \<Rightarrow> dashboard \<Rightarrow> dashboard" where
  "updateAll [] d = d"
| "updateAll (r # rs) d = updateAll rs (updateRecentActivity r d)"

section \<open>Scraping, navigation and theme\<close>

text \<open>
  \<open>showNotification(message, type)\<close> builds an element of the page and removes it three
  seconds later; the model returns the message and its type. \<open>startScraping\<close> does
  nothing else (``In a real app, this would trigger the actual scraping process'').
\<close>

record notification =
  message :: string
  ntype :: string

definition showNotification :: "string \<Rightarrow> string \<Rightarrow> notification" where
  "showNotification msg ty = \<lparr>message = msg, ntype = ty\<rparr>"

definition startScraping :: "dashboard \<Rightarrow> notification \<times> dashboard" where
  "startScraping d = (showNotification ''Scraping job started'' ''success'', d)"

definition refreshScrapingLogs :: "dashboard \<Rightarrow> notification \<times> dashboard" where
  "refreshScrapingLogs d = (showNotification ''Logs refreshed'' ''info'', d)"

definition navigateToSection :: "string \<Rightarrow> dashboard \<Rightarrow> dashboard" where
  "navigateToSection sectionId d = d\<lparr>currentSection := sectionId\<rparr>"

definition themeToggle :: "dashboard \<Rightarrow> dashboard" where
  "themeToggle d =
     d\<lparr>currentTheme := (if currentTheme d = ''light'' then ''dark'' else ''light'')\<rparr>"

definition initialTheme :: "bool \<Rightarrow> dashboard \<Rightarrow> dashboard" where
  "initialTheme prefersDark d = (if prefersDark then d\<lparr>currentTheme := ''dark''\<rparr> else d)"

section \<open>Everything the page can do\<close>

text \<open>
  One constructor for each handler of app.js: the buttons of the page, the timer and the
  start of the page. \<open>editSource\<close> shows an alert; \<open>openModal\<close>, \<open>closeModal\<close> and
  \<open>filterContent\<close> change the page only, never \<open>mockData\<close> or the two variables.
\<close>

datatype action =
    ToggleSource int
  | EditSource int
  | StartScraping
  | RefreshScrapingLogs
  | NavigateToSection string
  | ThemeToggle
  | InitialTheme bool
  | AutoRefreshTick draws
  | OpenModal string
  | CloseModal string
  | FilterContent

fun step :: "action \<Rightarrow> dashboard \<Rightarrow> dashboard" where
  "step (ToggleSource sourceId) d = toggleSource sourceId d"
| "step (EditSource sourceId) d = d"
| "step StartScraping d = snd (startScraping d)"
| "step RefreshScrapingLogs d = snd (refreshScrapingLogs d)"
| "step (NavigateToSection sectionId) d = navigateToSection sectionId d"
| "step ThemeToggle d = themeToggle d"
| "step (InitialTheme prefersDark) d = initialTheme prefersDark d"
| "step (AutoRefreshTick r) d = autoRefreshTick r d"
| "step (OpenModal modalId) d = d"
| "step (CloseModal modalId) d = d"
| "step FilterContent d = d"

fun run :: "action list \<Rightarrow> dashboard \<Rightarrow> dashboard" where
  "run [] d = d"
| "run (a # as) d = run as (step a d)"

section \<open>The revenue chart: initializeMonetizationChart\<close>

text \<open>
  A JavaScript number is a double. On integers, \<open>+\<close>, \<open>-\<close> and \<open>*\<close> give the exact
  result when its magnitude is at most \<open>2^53\<close>; a larger result is rounded to the nearest
  number with 53 significant bits, a tie to the one whose last bit is 0.
  \<open>js_number x\<close> is the double nearest to the integer \<open>x\<close>, for results below the
  largest double (about \<open>1.8 * 10^308\<close>). The operands of \<open>js_sub\<close> and \<open>js_mul\<close>
  are integers that are doubles themselves, as the values of \<open>mockData.monetization\<close>
  are.
\<close>

fun bit_length :: "nat \<Rightarrow> nat" where
  "bit_length n = (if n = 0 then 0 else Suc (bit_length (n div 2)))"

declare bit_length.simps [simp del]

definition js_number :: "int \<Rightarrow> int" where
  "js_number x =
     (let m = nat \<bar>x\<bar> in
      if m \<le> 2 ^ 53 then x
      else
        let e = bit_length m - 53;
            q = m div 2 ^ e;
            r = m mod 2 ^ e;
            half = 2 ^ (e - 1);
            q' = (if half < r \<or> (r = half \<and> odd q) then q + 1 else q)
        in sgn x * int (q' * 2 ^ e))"

definition js_sub :: "int \<Rightarrow> int \<Rightarrow> int" where
  "js_sub a b = js_number (a - b)"

definition js_mul :: "int \<Rightarrow> int \<Rightarrow> int" where
  "js_mul a b = js_number (a * b)"

text \<open>
  \<^verbatim>\<open>
  data: [
    mockData.monetization.affiliateRevenue,
    mockData.monetization.totalRevenue - mockData.monetization.affiliateRevenue
      - (mockData.monetization.sponsoredPosts * 500),
    mockData.monetization.sponsoredPosts * 500
  ]
  \<close>
  the segments labelled Affiliate Revenue, Subscriptions and Sponsored Posts.
\<close>

definition revenueChartData :: "monetization_data \<Rightarrow> int list" where
  "revenueChartData m =
     [affiliateRevenue m,
      js_sub (js_sub (totalRevenue m) (affiliateRevenue m)) (js_mul (sponsoredPosts m) 500),
      js_mul (sponsoredPosts m) 500]"

text \<open>\<open>loadSubscriptionStats\<close> prints the three tier counts.\<close>

definition loadSubscriptionStats :: "dashboard \<Rightarrow> int list" where
  "loadSubscriptionStats d =
     (let subs = subscriptions (monetization d) in [basic subs, pro subs, enterprise subs])"

text \<open>
  \<open>initializeMonetizationChart\<close> returns at once when the page has no element
  \<open>revenueChart\<close> (\<open>ctx\<close>); otherwise it draws the chart and the subscription tiers.
  The result is what is drawn, and the state after the call.
\<close>

definition initializeMonetizationChart ::
  "bool \<Rightarrow> dashboard \<Rightarrow> (int list \<times> int list) option \<times> dashboard" where
  "initializeMonetizationChart ctx d =
     (if \<not> ctx then (None, d)
      else (Some (revenueChartData (monetization d), loadSubscriptionStats d), d))"

text \<open>
  The fields of a source that a pause or a resume must leave alone: its id, name, type,
  url and article count.
\<close>

definition identityOf :: "source \<Rightarrow> int \<times> string \<times> string \<times> string \<times> int" where
  "identityOf s = (src_id s, src_name s, src_type s, src_url s, src_articles s)"

text \<open>A run used as an example: six ticks of the activity feed.\<close>

definition sixDraws :: "draws list" where
  "sixDraws =
     [\<lparr>clock = ''14:36'', pick = 0, over07 = False, over05 = False\<rparr>,
      \<lparr>clock = ''14:36'', pick = 1, over07 = False, over05 = True\<rparr>,
      \<lparr>clock = ''14:37'', pick = 2, over07 = True, over05 = False\<rparr>,
      \<lparr>clock = ''14:37'', pick = 3, over07 = False, over05 = False\<rparr>,
      \<lparr>clock = ''14:38'', pick = 4, over07 = False, over05 = True\<rparr>,
      \<lparr>clock = ''14:38'', pick = 0, over07 = True, over05 = True\<rparr>]"

section \<open>Basic facts\<close>

lemma toggleFirst_absent:
  "find (\<lambda>s. src_id s = sourceId) ss = None \<Longrightarrow> toggleFirst sourceId ss = ss"
  by (induction ss) (auto split: if_splits)

lemma contentSources_toggleSource:
  "contentSources (toggleSource sourceId d) = toggleFirst sourceId (contentSources d)"
  by (simp add: toggleSource_def toggleFirst_absent split: option.split)

lemma toggleSource_only_sources:
  "toggleSource sourceId d = d\<lparr>contentSources := toggleFirst sourceId (contentSources d)\<rparr>"
  by (simp add: toggleSource_def toggleFirst_absent split: option.split)

lemma identityOf_toggleFirst:
  "map identityOf (toggleFirst sourceId ss) = map identityOf ss"
  by (induction ss) (simp_all add: identityOf_def)

lemma others_toggleFirst:
  "list_all2 (\<lambda>s' s. src_id s \<noteq> sourceId \<longrightarrow> s' = s) (toggleFirst sourceId ss) ss"
  by (induction ss) (simp_all add: list.rel_refl)

lemma toggleFirst_twice:
  "find (\<lambda>s. src_id s = sourceId) ss = Some s \<Longrightarrow>
   src_status s = ''active'' \<or> src_status s = ''paused'' \<Longrightarrow>
   toggleFirst sourceId (toggleFirst sourceId ss) = ss"
  by (induction ss) (auto simp: toggleStatus_def split: if_splits)

text \<open>No handler writes the monetization data.\<close>

lemma step_monetization: "monetization (step a d) = monetization d"
  by (cases a)
     (simp_all add: toggleSource_only_sources startScraping_def refreshScrapingLogs_def
        navigateToSection_def themeToggle_def initialTheme_def autoRefreshTick_def
        updateRecentActivity_def)

lemma run_monetization: "monetization (run acts d) = monetization d"
  by (induction acts arbitrary: d) (simp_all add: step_monetization)

lemma step_identityOf:
  "map identityOf (contentSources (step a d)) = map identityOf (contentSources d)"
  by (cases a)
     (simp_all add: contentSources_toggleSource identityOf_toggleFirst startScraping_def
        refreshScrapingLogs_def navigateToSection_def themeToggle_def initialTheme_def
        autoRefreshTick_def updateRecentActivity_def)

lemma run_identityOf:
  "map identityOf (contentSources (run acts d)) = map identityOf (contentSources d)"
  by (induction acts arbitrary: d) (simp_all add: step_identityOf)

text \<open>Evaluating \<open>bit_length\<close> on a numeral, one halving at a time.\<close>

lemma bit_length_zero: "bit_length 0 = 0"
  by (simp add: bit_length.simps)

lemma bit_length_pos: "0 < n \<Longrightarrow> bit_length n = Suc (bit_length (n div 2))"
  by (subst bit_length.simps) simp

lemma js_number_exact: "\<bar>x\<bar> \<le> 2 ^ 53 \<Longrightarrow> js_number x = x"
  by (simp add: js_number_def Let_def nat_le_iff)

lemma find_registered:
  "distinct (map src_id ss) \<Longrightarrow> s \<in> set ss \<Longrightarrow>
   find (\<lambda>t. src_id t = src_id s) ss = Some s"
  by (induction ss) (auto simp: image_iff)

lemma zip_same_unchanged: "filter (\<lambda>(s', s). s' \<noteq> s) (zip ss ss) = []"
  by (induction ss) simp_all

lemma changed_toggleFirst:
  "length (filter (\<lambda>(s', s). s' \<noteq> s) (zip (toggleFirst sourceId ss) ss)) \<le> 1"
  by (induction ss) (simp_all add: zip_same_unchanged)

lemma find_absent:
  "sourceId \<notin> src_id ` set ss \<Longrightarrow> find (\<lambda>s. src_id s = sourceId) ss = None"
  by (induction ss) auto

text \<open>The feed after several calls: the new events, newest first, before the old feed.\<close>

lemma take_append_take: "take n (xs @ take n ys) = take n (xs @ ys)"
  by (simp add: min_def)

lemma updateAll_recentActivity:
  "rs \<noteq> [] \<Longrightarrow>
   recentActivity (updateAll rs d) = take 5 (rev (map newActivity rs) @ recentActivity d)"
proof (induction rs arbitrary: d)
  case Nil
  then show ?case by simp
next
  case (Cons r rs)
  show ?case
  proof (cases "rs = []")
    case True
    then show ?thesis by (simp add: updateRecentActivity_def)
  next
    case False
    have "recentActivity (updateAll rs (updateRecentActivity r d))
          = take 5 (rev (map newActivity rs) @ take 5 (newActivity r # recentActivity d))"
      using Cons.IH [OF False] by (simp add: updateRecentActivity_def)
    also have "\<dots> = take 5 (rev (map newActivity rs) @ newActivity r # recentActivity d)"
      by (rule take_append_take)
    finally show ?thesis by simp
  qed
qed

lemma updateAll_five_newest:
  assumes "5 \<le> length rs"
  shows "recentActivity (updateAll rs d) = map newActivity (take 5 (rev rs))"
proof -
  from assms have "rs \<noteq> []" by auto
  then have "recentActivity (updateAll rs d)
      = take 5 (rev (map newActivity rs) @ recentActivity d)"
    by (rule updateAll_recentActivity)
  also have "\<dots> = take 5 (rev (map newActivity rs))"
    using assms by simp
  also have "\<dots> = map newActivity (take 5 (rev rs))"
    by (simp add: rev_map take_map)
  finally show ?thesis .
qed

section \<open>The pause/resume toggle\<close>

text \<open>
  C10. The toggle is an involution on live sources: when the source that \<open>find\<close>
  returns for \<open>sourceId\<close> (the source registered under that id) has status
  \<open>active\<close> or \<open>paused\<close>, two calls of \<open>toggleSource\<close> with that id give back the
  state they started from, source list included. Where the ids of the list are distinct,
  \<open>find\<close> returns each source of the list for its own id (\<open>find_registered\<close>), so
  this is every source of the list. Any other status becomes \<open>active\<close> at the first
  call and could not come back.
\<close>

theorem toggleSource_involution:
  assumes "find (\<lambda>s. src_id s = sourceId) (contentSources d) = Some s"
    and "src_status s = ''active'' \<or> src_status s = ''paused''"
  shows "toggleSource sourceId (toggleSource sourceId d) = d"
  using toggleFirst_twice [OF assms] by (simp add: toggleSource_only_sources)

theorem toggleSource_involution_witness:
  "find (\<lambda>s. src_id s = 3) (contentSources mockData) = Some (mockContentSources ! 2)
   \<and> src_status (mockContentSources ! 2) = ''paused''
   \<and> toggleSource 3 mockData \<noteq> mockData
   \<and> toggleSource 3 (toggleSource 3 mockData) = mockData"
proof -
  have f: "find (\<lambda>s. src_id s = 3) (contentSources mockData) = Some (mockContentSources ! 2)"
    by (simp add: mockData_def mockContentSources_def)
  have p: "src_status (mockContentSources ! 2) = ''paused''"
    by (simp add: mockContentSources_def)
  have n: "toggleSource 3 mockData \<noteq> mockData"
    by (simp add: toggleSource_def mockData_def mockContentSources_def toggleStatus_def)
  from toggleSource_involution [OF f] p
  have "toggleSource 3 (toggleSource 3 mockData) = mockData" by simp
  with f p n show ?thesis by simp
qed

text \<open>
  C6. A pause or a resume changes the status of the source it targets and nothing
  else: after \<open>toggleSource\<close> the list has the same sources in the same order with the
  same id, name, type, url and article count; every source with another id is the
  source it was, and at most one entry of the list differs from what it was; and
  nothing of the page's state but the source list is touched. No
  operation of the page removes a source: after any series of operations the list still
  has the same sources with the same fields, the status apart.
\<close>

theorem toggleSource_frame:
  "map identityOf (contentSources (toggleSource sourceId d)) = map identityOf (contentSources d)
   \<and> list_all2 (\<lambda>s' s. src_id s \<noteq> sourceId \<longrightarrow> s' = s)
        (contentSources (toggleSource sourceId d)) (contentSources d)
   \<and> length (filter (\<lambda>(s', s). s' \<noteq> s)
        (zip (contentSources (toggleSource sourceId d)) (contentSources d))) \<le> 1
   \<and> toggleSource sourceId d = d\<lparr>contentSources := contentSources (toggleSource sourceId d)\<rparr>
   \<and> map identityOf (contentSources (run acts d)) = map identityOf (contentSources d)"
  using changed_toggleFirst [of sourceId "contentSources d"]
  by (simp add: contentSources_toggleSource identityOf_toggleFirst others_toggleFirst
        run_identityOf toggleSource_only_sources)

theorem toggleSource_frame_witness:
  "src_id (contentSources mockData ! 0) \<noteq> 2
   \<and> contentSources (toggleSource 2 mockData) ! 0 = contentSources mockData ! 0
   \<and> src_id (contentSources mockData ! 2) \<noteq> 2
   \<and> contentSources (toggleSource 2 mockData) ! 2 = contentSources mockData ! 2
   \<and> src_status (contentSources (toggleSource 2 mockData) ! 1) = ''paused''
   \<and> src_status (contentSources mockData ! 1) = ''active''
   \<and> map identityOf (contentSources (toggleSource 2 mockData))
      = [(1, ''FDA Medical Device Updates'', ''RSS'',
            ''https://fda.gov/feeds/medical-devices.xml'', 42),
         (2, ''Maritime Hydrogen News'', ''HTML'',
            ''https://maritime-executive.com/hydrogen'', 18),
         (3, ''Neurotech Patents'', ''API'',
            ''https://patents.uspto.gov/api/neurotech'', 7)]"
proof -
  have l: "length (contentSources mockData) = 3"
    by (simp add: mockData_def mockContentSources_def)
  have h0: "src_id (contentSources mockData ! 0) \<noteq> 2"
    and h2: "src_id (contentSources mockData ! 2) \<noteq> 2"
    by (simp_all add: mockData_def mockContentSources_def)
  from toggleSource_frame [of 2 mockData "[]"]
  have f: "list_all2 (\<lambda>s' s. src_id s \<noteq> 2 \<longrightarrow> s' = s)
        (contentSources (toggleSource 2 mockData)) (contentSources mockData)"
    and i: "map identityOf (contentSources (toggleSource 2 mockData))
          = map identityOf (contentSources mockData)"
    by blast+
  from f l h0 have e0: "contentSources (toggleSource 2 mockData) ! 0 = contentSources mockData ! 0"
    by (simp add: list_all2_conv_all_nth)
  from f l h2 have e2: "contentSources (toggleSource 2 mockData) ! 2 = contentSources mockData ! 2"
    by (simp add: list_all2_conv_all_nth)
  have s1: "src_status (contentSources (toggleSource 2 mockData) ! 1) = ''paused''"
    by (simp add: contentSources_toggleSource mockData_def mockContentSources_def toggleStatus_def)
  have s2: "src_status (contentSources mockData ! 1) = ''active''"
    by (simp add: mockData_def mockContentSources_def)
  have v: "map identityOf (contentSources mockData)
      = [(1, ''FDA Medical Device Updates'', ''RSS'',
            ''https://fda.gov/feeds/medical-devices.xml'', 42),
         (2, ''Maritime Hydrogen News'', ''HTML'',
            ''https://maritime-executive.com/hydrogen'', 18),
         (3, ''Neurotech Patents'', ''API'',
            ''https://patents.uspto.gov/api/neurotech'', 7)]"
    by (simp add: identityOf_def mockData_def mockContentSources_def)
  from h0 e0 h2 e2 s1 s2 i v show ?thesis by simp
qed

text \<open>
  C3, as amended. For an id that no source of the list has, \<open>toggleSource\<close> returns
  normally and leaves the whole state as it was: the \<open>if (source)\<close> skips the
  assignment and the redrawing, and nothing is reported.
\<close>

theorem toggleSource_unknown_id:
  assumes "sourceId \<notin> src_id ` set (contentSources d)"
  shows "toggleSource sourceId d = d"
  using find_absent [OF assms] by (simp add: toggleSource_def)

theorem toggleSource_unknown_id_witness:
  "(7::int) \<notin> src_id ` set (contentSources (toggleSource 1 mockData))
   \<and> toggleSource 7 (toggleSource 1 mockData) = toggleSource 1 mockData"
proof -
  have h: "(7::int) \<notin> src_id ` set (contentSources (toggleSource 1 mockData))"
    by (simp add: contentSources_toggleSource mockData_def mockContentSources_def)
  from toggleSource_unknown_id [OF h] h show ?thesis by simp
qed

text \<open>
  The page has the sources 1, 2 and 3. Toggling the id 99 finds no source and does
  nothing, without any error.
\<close>

theorem toggleSource_not_found_counterexample:
  "map src_id (contentSources mockData) = [1, 2, 3]
   \<and> find (\<lambda>s. src_id s = 99) (contentSources mockData) = None
   \<and> toggleSource 99 mockData = mockData"
  by (simp add: toggleSource_def mockData_def mockContentSources_def)

section \<open>Monetization\<close>

text \<open>
  C2. The monetization snapshot is a pure projection of the monetization data.
  Drawing the chart leaves the state as it was, so drawing it again gives the same
  numbers; two states with the same monetization data give the same numbers; and since
  no handler writes the monetization data, the numbers are the same after any series of
  operations of the page.
\<close>

theorem monetization_snapshot_reproducible:
  "snd (initializeMonetizationChart ctx d) = d
   \<and> fst (initializeMonetizationChart ctx (snd (initializeMonetizationChart ctx d)))
        = fst (initializeMonetizationChart ctx d)
   \<and> (monetization d' = monetization d \<longrightarrow>
        fst (initializeMonetizationChart ctx d') = fst (initializeMonetizationChart ctx d))
   \<and> fst (initializeMonetizationChart ctx (run acts d))
        = fst (initializeMonetizationChart ctx d)"
  by (simp add: initializeMonetizationChart_def loadSubscriptionStats_def run_monetization)

theorem monetization_snapshot_reproducible_witness:
  "monetization (toggleSource 1 mockData) = monetization mockData
   \<and> toggleSource 1 mockData \<noteq> mockData
   \<and> fst (initializeMonetizationChart True (toggleSource 1 mockData))
       = fst (initializeMonetizationChart True mockData)
   \<and> fst (initializeMonetizationChart True mockData) = Some ([1580, - 740, 1500], [67, 23, 4])"
proof -
  have m: "monetization (toggleSource 1 mockData) = monetization mockData"
    by (simp add: toggleSource_only_sources)
  have n: "toggleSource 1 mockData \<noteq> mockData"
    by (simp add: toggleSource_def mockData_def mockContentSources_def toggleStatus_def)
  have v: "fst (initializeMonetizationChart True mockData) = Some ([1580, - 740, 1500], [67, 23, 4])"
    by (simp add: initializeMonetizationChart_def loadSubscriptionStats_def revenueChartData_def
          js_sub_def js_mul_def js_number_exact mockData_def mockMonetization_def)
  from monetization_snapshot_reproducible [of True mockData "toggleSource 1 mockData" "[]"] m
  have "fst (initializeMonetizationChart True (toggleSource 1 mockData))
       = fst (initializeMonetizationChart True mockData)" by blast
  with m n v show ?thesis by blast
qed

text \<open>
  C8, as amended. When \<open>500 * sponsoredPosts\<close> and the two differences have
  magnitude at most \<open>2^53\<close>, where the arithmetic of doubles is exact on integers, the
  three segments of the chart sum to \<open>totalRevenue\<close>. The Subscriptions segment is
  computed, never stored, and is negative exactly when \<open>totalRevenue\<close> is below
  \<open>affiliateRevenue + 500 * sponsoredPosts\<close>, as it is for the data of the page
  (minus 740).
\<close>

theorem revenue_segments_sum:
  assumes "\<bar>sponsoredPosts m * 500\<bar> \<le> 2 ^ 53"
    and "\<bar>totalRevenue m - affiliateRevenue m\<bar> \<le> 2 ^ 53"
    and "\<bar>totalRevenue m - affiliateRevenue m - sponsoredPosts m * 500\<bar> \<le> 2 ^ 53"
  shows "sum_list (revenueChartData m) = totalRevenue m
    \<and> (revenueChartData m ! 1 < 0
         \<longleftrightarrow> totalRevenue m < affiliateRevenue m + sponsoredPosts m * 500)"
proof -
  have a: "js_mul (sponsoredPosts m) 500 = sponsoredPosts m * 500"
    using assms(1) by (simp add: js_mul_def js_number_exact)
  have b: "js_sub (totalRevenue m) (affiliateRevenue m) = totalRevenue m - affiliateRevenue m"
    using assms(2) by (simp add: js_sub_def js_number_exact)
  have c: "js_sub (totalRevenue m - affiliateRevenue m) (sponsoredPosts m * 500)
             = totalRevenue m - affiliateRevenue m - sponsoredPosts m * 500"
    using assms(3) by (simp add: js_sub_def js_number_exact)
  show ?thesis
    by (auto simp add: revenueChartData_def a b c)
qed

theorem revenue_segments_sum_witness:
  "\<bar>sponsoredPosts mockMonetization * 500\<bar> \<le> 2 ^ 53
   \<and> \<bar>totalRevenue mockMonetization - affiliateRevenue mockMonetization\<bar> \<le> 2 ^ 53
   \<and> \<bar>totalRevenue mockMonetization - affiliateRevenue mockMonetization
        - sponsoredPosts mockMonetization * 500\<bar> \<le> 2 ^ 53
   \<and> sum_list (revenueChartData mockMonetization) = 2340
   \<and> revenueChartData mockMonetization ! 1 < 0"
proof -
  have h1: "\<bar>sponsoredPosts mockMonetization * 500\<bar> \<le> 2 ^ 53"
    by (simp add: mockMonetization_def)
  have h2: "\<bar>totalRevenue mockMonetization - affiliateRevenue mockMonetization\<bar> \<le> 2 ^ 53"
    by (simp add: mockMonetization_def)
  have h3: "\<bar>totalRevenue mockMonetization - affiliateRevenue mockMonetization
        - sponsoredPosts mockMonetization * 500\<bar> \<le> 2 ^ 53"
    by (simp add: mockMonetization_def)
  from revenue_segments_sum [OF h1 h2 h3]
  have "sum_list (revenueChartData mockMonetization) = 2340
     \<and> revenueChartData mockMonetization ! 1 < 0"
    by (simp add: mockMonetization_def)
  with h1 h2 h3 show ?thesis by blast
qed

text \<open>
  For every integer the sum is not exact. With \<open>affiliateRevenue = 2^55\<close>, which is a
  double, \<open>totalRevenue = 1\<close> and no sponsored post, \<open>1 - 2^55\<close> is rounded to
  \<open>- 2^55\<close>: the segments are \<open>2^55\<close>, \<open>- 2^55\<close> and \<open>0\<close>, and their sum is 0, not 1.
\<close>

theorem revenue_segments_counterexample:
  "js_number 36028797018963968 = 36028797018963968
   \<and> revenueChartData \<lparr>subscriptions = \<lparr>basic = 67, pro = 23, enterprise = 4\<rparr>,
        affiliateRevenue = 36028797018963968, sponsoredPosts = 0, totalRevenue = 1\<rparr>
       = [36028797018963968, - 36028797018963968, 0]
   \<and> sum_list (revenueChartData \<lparr>subscriptions = \<lparr>basic = 67, pro = 23, enterprise = 4\<rparr>,
        affiliateRevenue = 36028797018963968, sponsoredPosts = 0, totalRevenue = 1\<rparr>)
       \<noteq> totalRevenue \<lparr>subscriptions = \<lparr>basic = 67, pro = 23, enterprise = 4\<rparr>,
        affiliateRevenue = 36028797018963968, sponsoredPosts = 0, totalRevenue = 1\<rparr>"
  by (simp add: revenueChartData_def js_sub_def js_mul_def js_number_def Let_def
        bit_length_pos bit_length_zero)

section \<open>The activity feed\<close>

text \<open>
  C9. Each call of \<open>updateRecentActivity\<close> puts one new event in front of the feed and
  cuts the feed to five entries. After every call the feed has at most five entries; it
  holds the events added so far, the newest first, before what is left of the earlier
  feed; and from five calls on it is the five newest added events, the newest first.
  Whatever falls off the end is gone: the call changes the field \<open>recentActivity\<close> and
  nothing else, so nothing counts what was dropped.
\<close>

theorem updateRecentActivity_keeps_five_newest:
  "recentActivity (updateRecentActivity r d) = take 5 (newActivity r # recentActivity d)
   \<and> length (recentActivity (updateRecentActivity r d)) \<le> 5
   \<and> recentActivity (updateAll (rs @ [r]) d)
       = take 5 (newActivity r # rev (map newActivity rs) @ recentActivity d)
   \<and> (5 \<le> length rs \<longrightarrow>
        recentActivity (updateAll rs d) = map newActivity (take 5 (rev rs)))
   \<and> updateRecentActivity r d
       = d\<lparr>recentActivity := recentActivity (updateRecentActivity r d)\<rparr>"
proof -
  have a: "recentActivity (updateRecentActivity r d) = take 5 (newActivity r # recentActivity d)"
    by (simp add: updateRecentActivity_def)
  have b: "length (recentActivity (updateRecentActivity r d)) \<le> 5"
    by (simp add: updateRecentActivity_def)
  have c: "recentActivity (updateAll (rs @ [r]) d)
       = take 5 (newActivity r # rev (map newActivity rs) @ recentActivity d)"
    using updateAll_recentActivity [of "rs @ [r]" d] by simp
  have e: "updateRecentActivity r d
       = d\<lparr>recentActivity := recentActivity (updateRecentActivity r d)\<rparr>"
    by (simp add: updateRecentActivity_def)
  from a b c e updateAll_five_newest show ?thesis by blast
qed

theorem updateRecentActivity_keeps_five_newest_witness:
  "5 \<le> length sixDraws
   \<and> recentActivity (updateAll sixDraws mockData)
     = [\<lparr>act_time = ''14:38'', act_action = ''New article scraped from Maritime Hydrogen News'',
         act_type = ''warning''\<rparr>,
        \<lparr>act_time = ''14:38'', act_action = ''Twitter post scheduled for publication'',
         act_type = ''info''\<rparr>,
        \<lparr>act_time = ''14:37'', act_action = ''Affiliate link generated for SaaS tool'',
         act_type = ''success''\<rparr>,
        \<lparr>act_time = ''14:37'', act_action = ''Published to LinkedIn successfully'',
         act_type = ''warning''\<rparr>,
        \<lparr>act_time = ''14:36'', act_action = ''AI content enhancement completed'',
         act_type = ''info''\<rparr>]"
proof -
  have h: "5 \<le> length sixDraws" by (simp add: sixDraws_def)
  from updateRecentActivity_keeps_five_newest [of "hd sixDraws" mockData sixDraws] h
  have "recentActivity (updateAll sixDraws mockData) = map newActivity (take 5 (rev sixDraws))"
    by blast
  then show ?thesis
    using h by (simp add: sixDraws_def newActivity_def activities_def)
qed

text \<open>
  C4, as amended. Recording an event never reorders the feed: the new event comes
  first and the earlier events follow in the order they had. It keeps only the four
  newest of them, so a feed of five loses its oldest event; a feed of at most four
  loses nothing. The bound is five entries, and no counter of the removed events
  exists: the feed is the only part of the state that changes.
\<close>

theorem updateRecentActivity_bounded_feed:
  "recentActivity (updateRecentActivity r d) = newActivity r # take 4 (recentActivity d)
   \<and> (length (recentActivity d) \<le> 4 \<longrightarrow>
        recentActivity (updateRecentActivity r d) = newActivity r # recentActivity d)
   \<and> updateRecentActivity r d
       = d\<lparr>recentActivity := newActivity r # take 4 (recentActivity d)\<rparr>"
  by (simp add: updateRecentActivity_def)

theorem updateRecentActivity_bounded_feed_witness:
  "length (recentActivity (mockData\<lparr>recentActivity := take 2 mockRecentActivity\<rparr>)) \<le> 4
   \<and> recentActivity (updateRecentActivity \<lparr>clock = ''14:36'', pick = 1, over07 = False, over05 = False\<rparr>
        (mockData\<lparr>recentActivity := take 2 mockRecentActivity\<rparr>))
     = \<lparr>act_time = ''14:36'', act_action = ''AI content enhancement completed'',
         act_type = ''success''\<rparr> # take 2 mockRecentActivity"
proof -
  have h: "length (recentActivity (mockData\<lparr>recentActivity := take 2 mockRecentActivity\<rparr>)) \<le> 4"
    by simp
  from updateRecentActivity_bounded_feed
    [of "\<lparr>clock = ''14:36'', pick = 1, over07 = False, over05 = False\<rparr>"
        "mockData\<lparr>recentActivity := take 2 mockRecentActivity\<rparr>"] h
  have "recentActivity (updateRecentActivity \<lparr>clock = ''14:36'', pick = 1, over07 = False, over05 = False\<rparr>
        (mockData\<lparr>recentActivity := take 2 mockRecentActivity\<rparr>))
     = newActivity \<lparr>clock = ''14:36'', pick = 1, over07 = False, over05 = False\<rparr>
        # recentActivity (mockData\<lparr>recentActivity := take 2 mockRecentActivity\<rparr>)"
    by blast
  then show ?thesis using h by (simp add: newActivity_def activities_def)
qed

text \<open>
  The feed of the page starts with five events. One more event removes the oldest one,
  recorded at 14:10, and the state after the call differs from the state before it in
  the feed only.
\<close>

theorem activity_log_append_only_counterexample:
  "\<lparr>act_time = ''14:10'', act_action = ''Generated affiliate links for 2 SaaS recommendations'',
     act_type = ''info''\<rparr> \<in> set (recentActivity mockData)
   \<and> \<lparr>act_time = ''14:10'', act_action = ''Generated affiliate links for 2 SaaS recommendations'',
     act_type = ''info''\<rparr>
     \<notin> set (recentActivity
         (updateRecentActivity \<lparr>clock = ''14:36'', pick = 1, over07 = False, over05 = False\<rparr> mockData))
   \<and> updateRecentActivity \<lparr>clock = ''14:36'', pick = 1, over07 = False, over05 = False\<rparr> mockData
     = mockData\<lparr>recentActivity :=
         \<lparr>act_time = ''14:36'', act_action = ''AI content enhancement completed'',
           act_type = ''success''\<rparr> # take 4 mockRecentActivity\<rparr>"
  by (simp add: updateRecentActivity_def newActivity_def activities_def mockData_def
        mockRecentActivity_def)

end
